theory Spec2Isabelle
  imports Main "HOL-Library.Multiset"
begin

section \<open>Values, exceptions and records of image_analyzer.py\<close>

text \<open>
  What \<open>json.load\<close> and \<open>response.json()\<close> hand to the program: Python values built
  from \<open>None\<close>, booleans, numbers, strings, lists and dicts. A dict keeps its items in
  insertion order, so it is an association list. No operation of the program looks at
  the value of a number, so one constructor stands for all of them.
\<close>

datatype json =
    JNull
  | JBool bool
  | JNumber int
  | JStr string
  | JArr "json list"
  | JObj "(string \<times> json) list"

text \<open>
  Exceptions are values: a class and the message \<open>str(e)\<close> gives back. Every class
  listed derives from \<open>Exception\<close>; \<open>HTTPError\<close> derives from
  \<open>requests.exceptions.RequestException\<close>, and \<open>RequestException\<close> stands for that
  class and its other subclasses (connection errors, timeouts, invalid URLs).
  \<open>SystemExit\<close>, which is not an \<open>Exception\<close>, is kept apart in \<open>abort\<close> below.
\<close>

datatype exn_class =
    FileNotFoundError
  | JSONDecodeError
  | TypeError
  | AttributeError
  | ValueError
  | RequestException
  | HTTPError
  | UnicodeEncodeError
  | OSError
  | OtherException

datatype exn = Exn exn_class string

fun str :: "exn \<Rightarrow> string" where
  "str (Exn c msg) = msg"

fun isinstance_RequestException :: "exn \<Rightarrow> bool" where
  "isinstance_RequestException (Exn c msg) = (c = RequestException \<or> c = HTTPError)"

type_synonym time = nat

datatype image = Image string

text \<open>
  A \<open>requests.Response\<close> as far as the program reads it: the status code, the body as
  text and as bytes, what \<open>response.json()\<close> returns or raises, and the message that
  \<open>raise_for_status\<close> puts into its \<open>HTTPError\<close>.
\<close>

record response =
  status_code :: nat
  resp_text :: string
  resp_content :: string
  resp_json :: "exn + json"
  http_error_msg :: string

text \<open>The dict returned by \<open>send_to_api\<close>; a key that is not set is \<open>None\<close>.\<close>

record api_result =
  success :: bool
  api_status_code :: "nat option"
  api_body :: "json option"
  api_error :: "string option"

text \<open>
  The result dict of \<open>process_profile\<close>, with the keys \<open>id\<close>, \<open>p_hash\<close>, \<open>status\<close>,
  \<open>error\<close>, \<open>api_response\<close> and \<open>timestamp\<close>. The timestamp is the clock reading
  itself (\<open>isoformat\<close> only renders it).
\<close>

record outcome =
  id_field :: json
  p_hash :: "string option"
  status :: string
  error :: "string option"
  api_response :: "api_result option"
  timestamp :: time

text \<open>The module-level constants read from the process environment.\<close>

record config =
  API_ENDPOINT :: string
  WORKER_SECRET :: string
  INPUT_FILE :: string
  OUTPUT_FILE :: string
  MAX_WORKERS :: int

text \<open>
  The outside world as one job sees it. Each library call takes the clock reading at
  which it starts and returns its result, or the exception it raises, together with the
  clock reading at which it comes back.
\<close>

record env =
  requests_get :: "json \<Rightarrow> time \<Rightarrow> (exn + response) \<times> time"
  Image_open :: "string \<Rightarrow> time \<Rightarrow> (exn + image) \<times> time"
  imagehash_phash :: "image \<Rightarrow> time \<Rightarrow> (exn + string) \<times> time"
  requests_post ::
    "string \<Rightarrow> json \<Rightarrow> (string \<times> string) list \<Rightarrow> time \<Rightarrow> (exn + response) \<times> time"

section \<open>The console\<close>

text \<open>
  Every \<open>print\<close> of the program, with the values it interpolates. Prints that follow one
  another with nothing in between are one message: \<open>Header\<close> is the banner and the
  configuration lines at the start of \<open>main\<close>, \<open>Processing\<close> the two lines before the
  pool is created, \<open>Summary\<close> the lines with the counts, \<open>Done\<close> the closing banner.
  The messages \<open>Loaded\<close>, \<open>FileNotFound\<close>, \<open>InvalidJson\<close>, \<open>NoProfiles\<close>,
  \<open>Downloading\<close>, \<open>Computing\<close>, \<open>Sending\<close>, \<open>Processed\<close>, \<open>ApiFailed\<close>, \<open>Failed\<close>,
  \<open>Summary\<close>, \<open>ResultsSaved\<close> and \<open>SaveError\<close> contain a check mark, a cross or an
  arrow, which are not ASCII characters.
\<close>

datatype message =
    Header config
  | Loaded nat string
  | FileNotFound string
  | InvalidJson string exn
  | NoProfiles
  | Processing nat int
  | Downloading json
  | Computing json
  | Sending json
  | Processed json string
  | ApiFailed json "string option"
  | Failed json exn
  | Summary nat nat
  | ResultsSaved string
  | SaveError exn
  | Done

text \<open>
  Standard output decides whether a \<open>print\<close> returns or raises: \<open>UnicodeEncodeError\<close>
  when its encoding has no code for a character of the text, an \<open>OSError\<close> when the
  stream is broken. A console maps a message to the exception its \<open>print\<close> raises, if
  any. The console \<open>accepting\<close> prints every message.
\<close>

type_synonym console = "message \<Rightarrow> exn option"

definition accepting :: console where
  "accepting m = None"

section \<open>Python built-ins the program applies to loaded data\<close>

text \<open>\<open>x.get(key)\<close>: only a dict has the method; a missing key gives \<open>None\<close>.\<close>

fun get :: "json \<Rightarrow> string \<Rightarrow> exn + json" where
  "get (JObj items) key = Inr (case map_of items key of None \<Rightarrow> JNull | Some v \<Rightarrow> v)"
| "get other key = Inl (Exn AttributeError ''object has no attribute get'')"

text \<open>\<open>len(x)\<close>: strings, lists and dicts have a length, the other values raise.\<close>

fun len :: "json \<Rightarrow> exn + nat" where
  "len (JStr s) = Inr (length s)"
| "len (JArr xs) = Inr (length xs)"
| "len (JObj items) = Inr (length items)"
| "len other = Inl (Exn TypeError ''object has no len()'')"

text \<open>Truth value of \<open>x\<close> in \<open>if not x\<close>.\<close>

fun truthy :: "json \<Rightarrow> bool" where
  "truthy JNull = False"
| "truthy (JBool b) = b"
| "truthy (JNumber n) = (n \<noteq> 0)"
| "truthy (JStr s) = (s \<noteq> [])"
| "truthy (JArr xs) = (xs \<noteq> [])"
| "truthy (JObj items) = (items \<noteq> [])"

text \<open>
  \<open>for profile in x\<close>: a list yields its elements, a dict its keys, a string its
  characters; the other values are not iterable.
\<close>

fun iterate :: "json \<Rightarrow> exn + json list" where
  "iterate (JArr xs) = Inr xs"
| "iterate (JObj items) = Inr (map (\<lambda>kv. JStr (fst kv)) items)"
| "iterate (JStr s) = Inr (map (\<lambda>c. JStr [c]) s)"
| "iterate other = Inl (Exn TypeError ''object is not iterable'')"

text \<open>
  \<open>response.raise_for_status()\<close> of the requests library raises \<open>HTTPError\<close> for the
  client and server error codes 400 to 599 and returns for every other status code.
\<close>

definition raise_for_status :: "response \<Rightarrow> exn + unit" where
  "raise_for_status r =
     (if 400 \<le> status_code r \<and> status_code r < 600
      then Inl (Exn HTTPError (http_error_msg r))
      else Inr ())"

section \<open>The stages\<close>

definition download_image :: "env \<Rightarrow> json \<Rightarrow> time \<Rightarrow> (exn + image) \<times> time" where
  "download_image w url t =
     (case requests_get w url t of
        (Inl e, t1) \<Rightarrow> (Inl e, t1)
      | (Inr r, t1) \<Rightarrow>
          (case raise_for_status r of
             Inl e \<Rightarrow> (Inl e, t1)
           | Inr u \<Rightarrow> Image_open w (resp_content r) t1))"

definition compute_phash :: "env \<Rightarrow> image \<Rightarrow> time \<Rightarrow> (exn + string) \<times> time" where
  "compute_phash w img t = imagehash_phash w img t"

text \<open>The body of the \<open>try\<close> in \<open>send_to_api\<close>.\<close>

definition send_to_api_try ::
  "config \<Rightarrow> env \<Rightarrow> json \<Rightarrow> (string \<times> string) list \<Rightarrow> time \<Rightarrow> (exn + api_result) \<times> time"
where
  "send_to_api_try cfg w payload headers t =
     (case requests_post w (API_ENDPOINT cfg) payload headers t of
        (Inl e, t1) \<Rightarrow> (Inl e, t1)
      | (Inr r, t1) \<Rightarrow>
          (case raise_for_status r of
             Inl e \<Rightarrow> (Inl e, t1)
           | Inr u \<Rightarrow>
               (if resp_text r \<noteq> []
                then (case resp_json r of
                        Inl e \<Rightarrow> (Inl e, t1)
                      | Inr body \<Rightarrow>
                          (Inr \<lparr>success = True, api_status_code = Some (status_code r),
                                api_body = Some body, api_error = None\<rparr>, t1))
                else (Inr \<lparr>success = True, api_status_code = Some (status_code r),
                           api_body = Some (JObj []), api_error = None\<rparr>, t1))))"

text \<open>The payload and the headers \<open>send_to_api\<close> builds before its \<open>try\<close>.\<close>

definition build_payload :: "json \<Rightarrow> string \<Rightarrow> json" where
  "build_payload profile_id phash =
     JObj [(''id'', profile_id), (''p_hash'', JStr phash), (''matches'', JArr [])]"

definition build_headers :: "config \<Rightarrow> (string \<times> string) list" where
  "build_headers cfg =
     (let headers = [(''Content-Type'', ''application/json'')]
      in if WORKER_SECRET cfg \<noteq> []
         then headers @ [(''X-WORKER-SECRET'', WORKER_SECRET cfg)]
         else headers)"

definition send_to_api ::
  "config \<Rightarrow> env \<Rightarrow> json \<Rightarrow> string \<Rightarrow> time \<Rightarrow> (exn + api_result) \<times> time"
where
  "send_to_api cfg w profile_id phash t =
     (case send_to_api_try cfg w (build_payload profile_id phash) (build_headers cfg) t of
        (Inl e, t1) \<Rightarrow>
          (if isinstance_RequestException e
           then (Inr \<lparr>success = False, api_status_code = None, api_body = None,
                      api_error = Some (str e)\<rparr>, t1)
           else (Inl e, t1))
      | (Inr res, t1) \<Rightarrow> (Inr res, t1))"

section \<open>The per-record pipeline\<close>

text \<open>
  The body of the \<open>try\<close> in \<open>process_profile\<close>, with its prints. The result dict is
  updated in place as the stages go by, so an exception leaves the block together with
  the dict as it is at that moment.
\<close>

definition process_profile_try ::
  "console \<Rightarrow> config \<Rightarrow> env \<Rightarrow> json \<Rightarrow> json \<Rightarrow> outcome \<Rightarrow> time
     \<Rightarrow> ((exn \<times> outcome) + outcome) \<times> time"
where
  "process_profile_try con cfg w profile_id image_url result t =
     (case con (Downloading profile_id) of
        Some e \<Rightarrow> (Inl (e, result), t)
      | None \<Rightarrow>
     (case download_image w image_url t of
        (Inl e, t1) \<Rightarrow> (Inl (e, result), t1)
      | (Inr img, t1) \<Rightarrow>
     (case con (Computing profile_id) of
        Some e \<Rightarrow> (Inl (e, result), t1)
      | None \<Rightarrow>
     (case compute_phash w img t1 of
        (Inl e, t2) \<Rightarrow> (Inl (e, result), t2)
      | (Inr phash, t2) \<Rightarrow>
     (let result1 = result\<lparr>p_hash := Some phash\<rparr>
      in case con (Sending profile_id) of
           Some e \<Rightarrow> (Inl (e, result1), t2)
         | None \<Rightarrow>
     (case send_to_api cfg w profile_id phash t2 of
        (Inl e, t3) \<Rightarrow> (Inl (e, result1), t3)
      | (Inr api, t3) \<Rightarrow>
     (let result2 = result1\<lparr>api_response := Some api\<rparr>
      in if success api
         then (let result3 = result2\<lparr>status := ''success''\<rparr>
               in case con (Processed profile_id phash) of
                    Some e \<Rightarrow> (Inl (e, result3), t3)
                  | None \<Rightarrow> (Inr result3, t3))
         else (let result3 = result2\<lparr>status := ''api_failed'', error := api_error api\<rparr>
               in case con (ApiFailed profile_id (api_error api)) of
                    Some e \<Rightarrow> (Inl (e, result3), t3)
                  | None \<Rightarrow> (Inr result3, t3)))))))))"

text \<open>
  \<open>process_profile\<close> as written: the two \<open>profile.get\<close> calls and the construction of
  the result dict, whose timestamp is \<open>datetime.now()\<close> at that point, come before the
  \<open>try\<close>; \<open>except Exception\<close> stores the message and prints it, and that print is
  not inside any \<open>try\<close>; then the function returns the dict.
\<close>

definition process_profile_io ::
  "console \<Rightarrow> config \<Rightarrow> env \<Rightarrow> json \<Rightarrow> time \<Rightarrow> (exn + outcome) \<times> time"
where
  "process_profile_io con cfg w profile t =
     (case get profile ''id'' of
        Inl e \<Rightarrow> (Inl e, t)
      | Inr profile_id \<Rightarrow>
          (case get profile ''profile_image_url'' of
             Inl e \<Rightarrow> (Inl e, t)
           | Inr image_url \<Rightarrow>
               (let result = \<lparr>id_field = profile_id, p_hash = None, status = ''failed'',
                              error = None, api_response = None, timestamp = t\<rparr>
                in case process_profile_try con cfg w profile_id image_url result t of
                     (Inl (e, result'), t1) \<Rightarrow>
                       (case con (Failed profile_id e) of
                          Some e' \<Rightarrow> (Inl e', t1)
                        | None \<Rightarrow> (Inr (result'\<lparr>error := Some (str e)\<rparr>), t1))
                   | (Inr result', t1) \<Rightarrow> (Inr result', t1))))"

text \<open>\<open>process_profile\<close> on a standard output that prints every message.\<close>

definition process_profile ::
  "config \<Rightarrow> env \<Rightarrow> json \<Rightarrow> time \<Rightarrow> (exn + outcome) \<times> time"
where
  "process_profile cfg w profile t = process_profile_io accepting cfg w profile t"

section \<open>Files\<close>

text \<open>
  What \<open>open\<close> and \<open>json.load\<close> do with a file: it parses as JSON, and then
  \<open>json.load\<close> returns the value; or it does not parse and \<open>json.load\<close> raises
  \<open>JSONDecodeError\<close>; or one of the two calls raises another exception (the path is a
  directory or may not be read, the bytes are not text, an integer has more digits than
  \<open>int\<close> converts, the nesting is too deep). The disk maps a path to the file stored
  there, \<open>None\<close> when there is none, and says for which paths \<open>open(path, 'w')\<close> fails.
\<close>

datatype contents = ValidJson json | NotJson string | Unloadable exn

record disk =
  files :: "string \<Rightarrow> contents option"
  unwritable :: "string \<Rightarrow> bool"

text \<open>\<open>SystemExit\<close> is raised by \<open>sys.exit\<close>; any other exception that nothing catches.\<close>

datatype abort = SystemExit nat | Uncaught exn

text \<open>
  The body of the \<open>try\<close> in \<open>load_profiles\<close>: \<open>open\<close>, \<open>json.load\<close>, the print with
  \<open>len(data)\<close>.
\<close>

definition load_profiles_try :: "console \<Rightarrow> disk \<Rightarrow> string \<Rightarrow> exn + json" where
  "load_profiles_try con d file_path =
     (case files d file_path of
        None \<Rightarrow> Inl (Exn FileNotFoundError file_path)
      | Some (NotJson raw) \<Rightarrow> Inl (Exn JSONDecodeError raw)
      | Some (Unloadable e) \<Rightarrow> Inl e
      | Some (ValidJson data) \<Rightarrow>
          (case len data of
             Inl e \<Rightarrow> Inl e
           | Inr n \<Rightarrow>
               (case con (Loaded n file_path) of
                  Some e \<Rightarrow> Inl e
                | None \<Rightarrow> Inr data)))"

text \<open>
  The two \<open>except\<close> clauses of \<open>load_profiles\<close>: each prints and calls \<open>sys.exit(1)\<close>;
  an exception of another class is not caught.
\<close>

fun load_profiles_except :: "console \<Rightarrow> string \<Rightarrow> exn \<Rightarrow> abort" where
  "load_profiles_except con file_path (Exn c msg) =
     (if c = FileNotFoundError
      then (case con (FileNotFound file_path) of
              Some e' \<Rightarrow> Uncaught e'
            | None \<Rightarrow> SystemExit 1)
      else if c = JSONDecodeError
      then (case con (InvalidJson file_path (Exn c msg)) of
              Some e' \<Rightarrow> Uncaught e'
            | None \<Rightarrow> SystemExit 1)
      else Uncaught (Exn c msg))"

definition load_profiles :: "console \<Rightarrow> disk \<Rightarrow> string \<Rightarrow> abort + json" where
  "load_profiles con d file_path =
     (case load_profiles_try con d file_path of
        Inl e \<Rightarrow> Inl (load_profiles_except con file_path e)
      | Inr data \<Rightarrow> Inr data)"

text \<open>What \<open>json.dump\<close> writes for the result list, as the JSON value it encodes.\<close>

definition api_result_json :: "api_result \<Rightarrow> json" where
  "api_result_json a =
     JObj ([(''success'', JBool (success a))]
           @ (case api_status_code a of None \<Rightarrow> [] | Some c \<Rightarrow> [(''status_code'', JNumber (int c))])
           @ (case api_body a of None \<Rightarrow> [] | Some b \<Rightarrow> [(''response'', b)])
           @ (case api_error a of None \<Rightarrow> [] | Some m \<Rightarrow> [(''error'', JStr m)]))"

definition outcome_json :: "outcome \<Rightarrow> json" where
  "outcome_json r =
     JObj [(''id'', id_field r),
           (''p_hash'', case p_hash r of None \<Rightarrow> JNull | Some h \<Rightarrow> JStr h),
           (''status'', JStr (status r)),
           (''error'', case error r of None \<Rightarrow> JNull | Some m \<Rightarrow> JStr m),
           (''api_response'', case api_response r of None \<Rightarrow> JNull | Some a \<Rightarrow> api_result_json a),
           (''timestamp'', JNumber (int (timestamp r)))]"

text \<open>
  The body of the \<open>try\<close> in \<open>save_results\<close>: the file is written and closed, then the
  confirmation is printed.
\<close>

definition save_results_try ::
  "console \<Rightarrow> outcome list \<Rightarrow> string \<Rightarrow> disk \<Rightarrow> (exn + unit) \<times> disk"
where
  "save_results_try con results output_file d =
     (if unwritable d output_file
      then (Inl (Exn OSError output_file), d)
      else (let d1 = d\<lparr>files := (files d)(output_file \<mapsto>
                                  ValidJson (JArr (map outcome_json results)))\<rparr>
            in case con (ResultsSaved output_file) of
                 Some e \<Rightarrow> (Inl e, d1)
               | None \<Rightarrow> (Inr (), d1)))"

text \<open>
  \<open>save_results\<close>: \<open>except Exception\<close> catches whatever the body raises and prints
  it; that print is not inside any \<open>try\<close>.
\<close>

definition save_results ::
  "console \<Rightarrow> outcome list \<Rightarrow> string \<Rightarrow> disk \<Rightarrow> (exn + unit) \<times> disk"
where
  "save_results con results output_file d =
     (case save_results_try con results output_file d of
        (Inl e, d1) \<Rightarrow>
          (case con (SaveError e) of
             Some e' \<Rightarrow> (Inl e', d1)
           | None \<Rightarrow> (Inr (), d1))
      | (Inr u, d1) \<Rightarrow> (Inr (), d1))"

section \<open>The scheduler\<close>

text \<open>
  What the run of the pool depends on: the world and the start time of the job submitted
  at each position, and a rank that decides in which order \<open>as_completed\<close> hands the
  futures back. A future holds what its call of \<open>process_profile\<close> returned or raised.
\<close>

record sched =
  job_env :: "nat \<Rightarrow> env"
  job_start :: "nat \<Rightarrow> time"
  completion_rank :: "nat \<Rightarrow> nat"

definition submit_all ::
  "console \<Rightarrow> config \<Rightarrow> sched \<Rightarrow> json list \<Rightarrow> (exn + outcome) list"
where
  "submit_all con cfg s profiles =
     map (\<lambda>i. fst (process_profile_io con cfg (job_env s i) (profiles ! i) (job_start s i)))
         [0..<length profiles]"

definition completion_order :: "sched \<Rightarrow> nat \<Rightarrow> nat list" where
  "completion_order s n = sort_key (completion_rank s) [0..<n]"

definition as_completed :: "sched \<Rightarrow> 'a list \<Rightarrow> 'a list" where
  "as_completed s futures = map (\<lambda>i. futures ! i) (completion_order s (length futures))"

text \<open>The collection loop: \<open>future.result()\<close> raises what the job raised.\<close>

fun collect :: "(exn + outcome) list \<Rightarrow> outcome list \<Rightarrow> exn + outcome list" where
  "collect [] results = Inr results"
| "collect (Inl e # futures) results = Inl e"
| "collect (Inr r # futures) results = collect futures (results @ [r])"

text \<open>
  Lines 224 to 236 of \<open>main\<close>. \<open>ThreadPoolExecutor\<close> raises \<open>ValueError\<close> when
  \<open>max_workers\<close> is not positive.
\<close>

definition run_scheduler ::
  "console \<Rightarrow> config \<Rightarrow> sched \<Rightarrow> json list \<Rightarrow> exn + outcome list"
where
  "run_scheduler con cfg s profiles =
     (if MAX_WORKERS cfg \<le> 0
      then Inl (Exn ValueError ''max_workers must be greater than 0'')
      else collect (as_completed s (submit_all con cfg s profiles)) [])"

section \<open>main and the exit status\<close>

datatype event = PoolCreated | Submitted json | SaveResults string

record run =
  raised :: "abort option"
  disk_after :: disk
  events :: "event list"

text \<open>What \<open>main\<close> does once the scheduler has handed back the results (lines 238 to 253).\<close>

definition report_and_save ::
  "console \<Rightarrow> config \<Rightarrow> json list \<Rightarrow> outcome list \<Rightarrow> disk \<Rightarrow> run"
where
  "report_and_save con cfg ps results d =
     (let successful = length (filter (\<lambda>r. status r = ''success'') results)
      in case con (Summary successful (length results)) of
           Some e \<Rightarrow>
             \<lparr>raised = Some (Uncaught e), disk_after = d,
              events = PoolCreated # map Submitted ps\<rparr>
         | None \<Rightarrow>
             (case save_results con results (OUTPUT_FILE cfg) d of
                (Inl e, d1) \<Rightarrow>
                  \<lparr>raised = Some (Uncaught e), disk_after = d1,
                   events = PoolCreated # map Submitted ps @ [SaveResults (OUTPUT_FILE cfg)]\<rparr>
              | (Inr u, d1) \<Rightarrow>
                  (case con Done of
                     Some e \<Rightarrow>
                       \<lparr>raised = Some (Uncaught e), disk_after = d1,
                        events = PoolCreated # map Submitted ps
                                 @ [SaveResults (OUTPUT_FILE cfg)]\<rparr>
                   | None \<Rightarrow>
                       \<lparr>raised = None, disk_after = d1,
                        events = PoolCreated # map Submitted ps
                                 @ [SaveResults (OUTPUT_FILE cfg)]\<rparr>)))"

text \<open>\<open>main\<close> as written, from the loaded value on (lines 216 to 253).\<close>

definition process_loaded ::
  "console \<Rightarrow> config \<Rightarrow> sched \<Rightarrow> disk \<Rightarrow> json \<Rightarrow> run"
where
  "process_loaded con cfg s d profiles =
     (if \<not> truthy profiles
      then (case con NoProfiles of
              Some e \<Rightarrow> \<lparr>raised = Some (Uncaught e), disk_after = d, events = []\<rparr>
            | None \<Rightarrow> \<lparr>raised = None, disk_after = d, events = []\<rparr>)
      else (case len profiles of
              Inl e \<Rightarrow> \<lparr>raised = Some (Uncaught e), disk_after = d, events = []\<rparr>
            | Inr n \<Rightarrow>
                (case con (Processing n (MAX_WORKERS cfg)) of
                   Some e \<Rightarrow> \<lparr>raised = Some (Uncaught e), disk_after = d, events = []\<rparr>
                 | None \<Rightarrow>
                     (case iterate profiles of
                        Inl e \<Rightarrow> \<lparr>raised = Some (Uncaught e), disk_after = d, events = []\<rparr>
                      | Inr ps \<Rightarrow>
                          (case run_scheduler con cfg s ps of
                             Inl e \<Rightarrow>
                               \<lparr>raised = Some (Uncaught e), disk_after = d,
                                events = (if MAX_WORKERS cfg \<le> 0 then []
                                          else PoolCreated # map Submitted ps)\<rparr>
                           | Inr results \<Rightarrow> report_and_save con cfg ps results d)))))"

text \<open>\<open>main\<close> as written: the header, \<open>load_profiles\<close>, and the rest.\<close>

definition main_io :: "console \<Rightarrow> config \<Rightarrow> sched \<Rightarrow> disk \<Rightarrow> run" where
  "main_io con cfg s d =
     (case con (Header cfg) of
        Some e \<Rightarrow> \<lparr>raised = Some (Uncaught e), disk_after = d, events = []\<rparr>
      | None \<Rightarrow>
          (case load_profiles con d (INPUT_FILE cfg) of
             Inl a \<Rightarrow> \<lparr>raised = Some a, disk_after = d, events = []\<rparr>
           | Inr profiles \<Rightarrow> process_loaded con cfg s d profiles))"

text \<open>\<open>main\<close> on a standard output that prints every message.\<close>

definition main :: "config \<Rightarrow> sched \<Rightarrow> disk \<Rightarrow> run" where
  "main cfg s d = main_io accepting cfg s d"

text \<open>
  The status the interpreter exits with: 0 when \<open>main\<close> returns, the argument of
  \<open>sys.exit\<close>, and 1 after an uncaught exception.
\<close>

fun exit_status :: "abort option \<Rightarrow> nat" where
  "exit_status None = 0"
| "exit_status (Some (SystemExit n)) = n"
| "exit_status (Some (Uncaught e)) = 1"

fun is_dict :: "json \<Rightarrow> bool" where
  "is_dict (JObj items) = True"
| "is_dict other = False"

section \<open>Sample worlds\<close>

definition sample_cfg :: config where
  "sample_cfg =
     \<lparr>API_ENDPOINT = ''https://backend.example/api/checkImage'', WORKER_SECRET = [],
      INPUT_FILE = ''profiles.json'', OUTPUT_FILE = ''results.json'', MAX_WORKERS = 5\<rparr>"

definition sample_profile :: json where
  "sample_profile =
     JObj [(''id'', JStr ''u1''), (''profile_image_url'', JStr ''http://img.example/1.png'')]"

definition image_response :: response where
  "image_response =
     \<lparr>status_code = 200, resp_text = ''PNG'', resp_content = ''PNG'',
      resp_json = Inl (Exn RequestException ''Expecting value''), http_error_msg = []\<rparr>"

definition not_found_response :: response where
  "not_found_response =
     \<lparr>status_code = 404, resp_text = ''Not Found'', resp_content = ''Not Found'',
      resp_json = Inl (Exn RequestException ''Expecting value''),
      http_error_msg = ''404 Client Error: Not Found''\<rparr>"

definition api_ok_response :: response where
  "api_ok_response =
     \<lparr>status_code = 200, resp_text = ''{ok: true}'', resp_content = ''{ok: true}'',
      resp_json = Inr (JObj [(''ok'', JBool True)]), http_error_msg = []\<rparr>"

definition api_500_response :: response where
  "api_500_response =
     \<lparr>status_code = 500, resp_text = [], resp_content = [],
      resp_json = Inl (Exn RequestException ''Expecting value''),
      http_error_msg = ''500 Server Error: Internal Server Error''\<rparr>"

definition api_304_response :: response where
  "api_304_response =
     \<lparr>status_code = 304, resp_text = [], resp_content = [],
      resp_json = Inl (Exn RequestException ''Expecting value''), http_error_msg = []\<rparr>"

definition api_plain_response :: response where
  "api_plain_response =
     \<lparr>status_code = 200, resp_text = ''OK'', resp_content = ''OK'',
      resp_json = Inl (Exn RequestException ''Expecting value''), http_error_msg = []\<rparr>"

text \<open>
  A world in which the GET answers with \<open>g\<close> after 2 ticks, decoding and hashing take one
  tick each, and the POST answers with \<open>p\<close> after 3 ticks.
\<close>

definition sample_env :: "response \<Rightarrow> response \<Rightarrow> env" where
  "sample_env g p =
     \<lparr>requests_get = (\<lambda>url t. (Inr g, t + 2)),
      Image_open = (\<lambda>bytes t. (Inr (Image bytes), t + 1)),
      imagehash_phash = (\<lambda>img t. (Inr ''c3d4a1b2e5f60718'', t + 1)),
      requests_post = (\<lambda>url payload headers t. (Inr p, t + 3))\<rparr>"

definition sample_sched :: "env \<Rightarrow> sched" where
  "sample_sched w =
     \<lparr>job_env = (\<lambda>i. w), job_start = (\<lambda>i. i), completion_rank = (\<lambda>i. 10 - i)\<rparr>"

definition sample_disk :: "json \<Rightarrow> disk" where
  "sample_disk data =
     \<lparr>files = [''profiles.json'' \<mapsto> ValidJson data], unwritable = (\<lambda>path. False)\<rparr>"

text \<open>
  A world whose POST raises an exception that is not a \<open>RequestException\<close>, and a
  standard output whose encoding has no check mark, cross or arrow (cp1252, ASCII).
\<close>

definition post_crash_env :: env where
  "post_crash_env =
     (sample_env image_response api_ok_response)
       \<lparr>requests_post := (\<lambda>url payload headers t.
                            (Inl (Exn OtherException ''unexpected error in POST''), t + 3))\<rparr>"

fun narrow_console :: console where
  "narrow_console (Header cfg) = None"
| "narrow_console (Processing n k) = None"
| "narrow_console Done = None"
| "narrow_console m = Some (Exn UnicodeEncodeError ''codec cannot encode character'')"

text \<open>
  A record whose id is a lone surrogate (the code point D800, which a JSON string may
  hold as an escape), written here by the three bytes of its code point; and a standard
  output encoded as UTF-8, which prints every text but one that contains this id.
\<close>

definition surrogate_profile :: json where
  "surrogate_profile =
     JObj [(''id'', JStr [CHR 0xED, CHR 0xA0, CHR 0x80]),
           (''profile_image_url'', JStr ''http://img.example/2.png'')]"

fun interpolated_id :: "message \<Rightarrow> json option" where
  "interpolated_id (Downloading i) = Some i"
| "interpolated_id (Computing i) = Some i"
| "interpolated_id (Sending i) = Some i"
| "interpolated_id (Processed i h) = Some i"
| "interpolated_id (ApiFailed i e) = Some i"
| "interpolated_id (Failed i e) = Some i"
| "interpolated_id m = None"

definition utf8_console :: console where
  "utf8_console m =
     (if interpolated_id m = Some (JStr [CHR 0xED, CHR 0xA0, CHR 0x80])
      then Some (Exn UnicodeEncodeError ''surrogates not allowed'')
      else None)"

section \<open>Facts about the stages\<close>


lemma send_to_api_success_no_error:
  "send_to_api cfg w pid ph t = (Inr a, t1) \<Longrightarrow> success a \<Longrightarrow> api_error a = None"
  by (auto simp: send_to_api_def send_to_api_try_def Let_def
           split: prod.splits sum.splits if_splits)

lemma download_image_failure_cases:
  "download_image w url t = (Inl e, t1) \<longleftrightarrow>
     requests_get w url t = (Inl e, t1) \<or>
     (\<exists>r. requests_get w url t = (Inr r, t1) \<and> 400 \<le> status_code r \<and> status_code r < 600
           \<and> e = Exn HTTPError (http_error_msg r)) \<or>
     (\<exists>r t0. requests_get w url t = (Inr r, t0) \<and> \<not> (400 \<le> status_code r \<and> status_code r < 600)
           \<and> Image_open w (resp_content r) t0 = (Inl e, t1))"
  by (auto simp: download_image_def raise_for_status_def split: prod.splits sum.splits if_splits)

lemma download_image_ignores_post:
  "download_image (w\<lparr>requests_post := post\<rparr>) url t = download_image w url t"
  by (simp add: download_image_def split: prod.splits sum.splits)

text \<open>
  On a standard output that prints every message the prints drop out of the pipeline.
\<close>

lemma console_accepting: "(\<forall>m. con m = None) \<Longrightarrow> con = accepting"
  by (simp add: fun_eq_iff accepting_def)

lemma process_profile_try_accepting:
  "process_profile_try accepting cfg w profile_id image_url result t =
     (case download_image w image_url t of
        (Inl e, t1) \<Rightarrow> (Inl (e, result), t1)
      | (Inr img, t1) \<Rightarrow>
          (case compute_phash w img t1 of
             (Inl e, t2) \<Rightarrow> (Inl (e, result), t2)
           | (Inr phash, t2) \<Rightarrow>
               (let result1 = result\<lparr>p_hash := Some phash\<rparr>
                in case send_to_api cfg w profile_id phash t2 of
                     (Inl e, t3) \<Rightarrow> (Inl (e, result1), t3)
                   | (Inr api, t3) \<Rightarrow>
                       (let result2 = result1\<lparr>api_response := Some api\<rparr>
                        in if success api
                           then (Inr (result2\<lparr>status := ''success''\<rparr>), t3)
                           else (Inr (result2\<lparr>status := ''api_failed'',
                                              error := api_error api\<rparr>), t3)))))"
  by (simp add: process_profile_try_def accepting_def Let_def split: prod.splits sum.splits)

lemma process_profile_accepting:
  "process_profile cfg w profile t =
     (case get profile ''id'' of
        Inl e \<Rightarrow> (Inl e, t)
      | Inr profile_id \<Rightarrow>
          (case get profile ''profile_image_url'' of
             Inl e \<Rightarrow> (Inl e, t)
           | Inr image_url \<Rightarrow>
               (let result = \<lparr>id_field = profile_id, p_hash = None, status = ''failed'',
                              error = None, api_response = None, timestamp = t\<rparr>
                in case process_profile_try accepting cfg w profile_id image_url result t of
                     (Inl (e, result'), t1) \<Rightarrow> (Inr (result'\<lparr>error := Some (str e)\<rparr>), t1)
                   | (Inr result', t1) \<Rightarrow> (Inr result', t1))))"
  by (simp add: process_profile_def process_profile_io_def accepting_def Let_def
           split: prod.splits sum.splits)

lemma process_profile_dict:
  "\<exists>r t1. process_profile cfg w (JObj items) t = (Inr r, t1)"
  by (auto simp: process_profile_accepting Let_def split: prod.splits sum.splits)

lemma process_profile_io_not_dict:
  "\<not> is_dict p \<Longrightarrow>
     process_profile_io con cfg w p t
       = (Inl (Exn AttributeError ''object has no attribute get''), t)"
  by (cases p) (simp_all add: process_profile_io_def)

lemma process_profile_not_dict:
  "\<not> is_dict p \<Longrightarrow>
     process_profile cfg w p t = (Inl (Exn AttributeError ''object has no attribute get''), t)"
  by (simp add: process_profile_def process_profile_io_not_dict)

text \<open>
  A dict record makes \<open>process_profile\<close> raise in one way only: the body of the \<open>try\<close>
  raises, and then the print of the handler raises.
\<close>

lemma process_profile_io_raises_iff:
  "process_profile_io con cfg w (JObj items) t = (Inl e', t1) \<longleftrightarrow>
     (\<exists>e r. process_profile_try con cfg w
               (case map_of items ''id'' of None \<Rightarrow> JNull | Some v \<Rightarrow> v)
               (case map_of items ''profile_image_url'' of None \<Rightarrow> JNull | Some v \<Rightarrow> v)
               \<lparr>id_field = (case map_of items ''id'' of None \<Rightarrow> JNull | Some v \<Rightarrow> v),
                p_hash = None, status = ''failed'', error = None, api_response = None,
                timestamp = t\<rparr> t = (Inl (e, r), t1)
            \<and> con (Failed (case map_of items ''id'' of None \<Rightarrow> JNull | Some v \<Rightarrow> v) e) = Some e')"
  by (auto simp: process_profile_io_def Let_def split: prod.splits sum.splits option.splits)

lemma process_profile_io_print_fails:
  assumes "get profile ''id'' = Inr pid" and "get profile ''profile_image_url'' = Inr url"
      and "con (Downloading pid) = Some e" and "con (Failed pid e) = Some e'"
  shows "process_profile_io con cfg w profile t = (Inl e', t)"
  using assms by (simp add: process_profile_io_def process_profile_try_def)

lemmas pipeline_defs =
  process_profile_def process_profile_io_def process_profile_try_def accepting_def
  download_image_def compute_phash_def
  send_to_api_def send_to_api_try_def raise_for_status_def build_payload_def
  build_headers_def Let_def

lemmas sample_defs =
  sample_cfg_def sample_env_def sample_profile_def image_response_def
  not_found_response_def api_ok_response_def api_500_response_def api_304_response_def
  api_plain_response_def post_crash_env_def surrogate_profile_def
  utf8_console_def

section \<open>Facts about the scheduler and main\<close>

lemma mset_completion_order: "mset (completion_order s n) = mset [0..<n]"
  by (simp add: completion_order_def)

lemma set_completion_order: "set (completion_order s n) = {0..<n}"
  by (simp add: completion_order_def)

lemma length_completion_order: "length (completion_order s n) = n"
  by (simp add: completion_order_def)

text \<open>
  Every order in which the futures can complete is the completion order of some rank:
  a statement about every \<open>sched\<close> is a statement about every completion order.
\<close>

lemma position_nth:
  assumes "distinct order" and "k < length order"
  shows "length (takeWhile (\<lambda>j. j \<noteq> order ! k) order) = k"
proof -
  have "takeWhile (\<lambda>j. j \<noteq> order ! k) order = take k order"
  proof (rule takeWhile_eq_take_P_nth)
    fix i assume "i < k" "i < length order"
    with assms show "order ! i \<noteq> order ! k"
      by (simp add: nth_eq_iff_index_eq)
  next
    show "\<not> order ! k \<noteq> order ! k" by simp
  qed
  with assms(2) show ?thesis by simp
qed

lemma every_order_completes:
  assumes perm: "mset order = mset [0..<n]"
  shows "completion_order (s\<lparr>completion_rank := (\<lambda>i. length (takeWhile (\<lambda>j. j \<noteq> i) order))\<rparr>) n
           = (order :: nat list)"
proof -
  let ?rank = "\<lambda>i. length (takeWhile (\<lambda>j. j \<noteq> i) order)"
  have dist: "distinct order"
    using perm by (metis distinct_upt mset_eq_imp_distinct_iff)
  have set_eq: "set order = set [0..<n]"
    using perm by (rule mset_eq_setD)
  have ranks: "map ?rank order = [0..<length order]"
    by (rule nth_equalityI) (simp_all add: position_nth [OF dist])
  have sorted: "sorted (map ?rank order)"
    by (simp only: ranks sorted_upt)
  have inj: "inj_on ?rank (set [0..<n])"
  proof (rule inj_onI)
    fix a b assume "a \<in> set [0..<n]" "b \<in> set [0..<n]" and eq: "?rank a = ?rank b"
    then obtain i j where i: "i < length order" "a = order ! i"
      and j: "j < length order" "b = order ! j"
      unfolding set_eq [symmetric] by (auto simp: in_set_conv_nth)
    with eq dist show "a = b"
      by (simp add: position_nth)
  qed
  have "sort_key ?rank [0..<n] = order"
    using perm [symmetric] inj sorted by (rule sort_key_inj_key_eq)
  then show ?thesis
    by (simp add: completion_order_def)
qed

lemma as_completed_map: "as_completed s (map f xs) = map f (as_completed s xs)"
  by (simp add: as_completed_def set_completion_order)

lemma mset_as_completed: "mset (as_completed s xs) = mset xs"
proof -
  have "mset (as_completed s xs) = image_mset ((!) xs) (mset (completion_order s (length xs)))"
    unfolding as_completed_def by (rule mset_map)
  also have "\<dots> = image_mset ((!) xs) (mset [0..<length xs])"
    by (simp only: mset_completion_order)
  also have "\<dots> = mset (map ((!) xs) [0..<length xs])"
    by (simp only: mset_map)
  also have "\<dots> = mset xs"
    by (simp only: map_nth)
  finally show ?thesis .
qed

lemma set_as_completed: "set (as_completed s xs) = set xs"
proof -
  have "set_mset (mset (as_completed s xs)) = set_mset (mset xs)"
    by (simp only: mset_as_completed)
  then show ?thesis by simp
qed

lemma length_as_completed: "length (as_completed s xs) = length xs"
  by (simp add: as_completed_def length_completion_order)

lemma collect_map_Inr: "collect (map Inr rs) acc = Inr (acc @ rs)"
  by (induction rs arbitrary: acc) simp_all

lemma collect_Inl:
  assumes "Inl e \<in> set fs" and "\<And>e'. Inl e' \<in> set fs \<Longrightarrow> e' = e"
  shows "collect fs acc = Inl e"
  using assms
proof (induction fs arbitrary: acc)
  case Nil
  then show ?case by simp
next
  case (Cons f fs)
  show ?case
  proof (cases f)
    case (Inl e')
    have "Inl e' \<in> set (f # fs)"
      by (simp add: Inl)
    then have "e' = e"
      by (rule Cons.prems(2))
    then show ?thesis
      by (simp add: Inl)
  next
    case (Inr r)
    have mem: "Inl e \<in> set fs"
      using Cons.prems(1) by (simp add: Inr)
    have "collect fs (acc @ [r]) = Inl e"
    proof (rule Cons.IH [OF mem])
      fix e' assume "Inl e' \<in> set fs"
      then have "Inl e' \<in> set (f # fs)" by simp
      then show "e' = e" by (rule Cons.prems(2))
    qed
    then show ?thesis
      by (simp add: Inr)
  qed
qed

lemma all_Inr_map: "\<forall>x \<in> set fs. \<exists>r. x = Inr r \<Longrightarrow> \<exists>rs. fs = map Inr rs"
  by (induction fs) (auto simp: Cons_eq_map_conv)

lemma nth_submit_all:
  "i < length ps \<Longrightarrow>
     submit_all con cfg s ps ! i
       = fst (process_profile_io con cfg (job_env s i) (ps ! i) (job_start s i))"
  by (simp add: submit_all_def)

lemma length_submit_all: "length (submit_all con cfg s ps) = length ps"
  by (simp add: submit_all_def)

lemma is_dict_iff: "is_dict p \<longleftrightarrow> (\<exists>items. p = JObj items)"
  by (cases p) simp_all

lemma process_profile_id:
  "process_profile cfg w p t = (Inr r, t1) \<Longrightarrow> get p ''id'' = Inr (id_field r)"
  by (auto simp: process_profile_accepting process_profile_try_accepting Let_def
           split: prod.splits sum.splits if_splits)

lemma submit_all_dicts:
  assumes "\<forall>p \<in> set ps. is_dict p"
  shows "\<exists>rs. submit_all accepting cfg s ps = map Inr rs"
proof (rule all_Inr_map, rule ballI)
  fix x assume "x \<in> set (submit_all accepting cfg s ps)"
  then obtain i where i: "i < length ps"
    and x: "x = fst (process_profile cfg (job_env s i) (ps ! i) (job_start s i))"
    by (auto simp: submit_all_def process_profile_def)
  from i have "ps ! i \<in> set ps"
    by simp
  with assms obtain items where "ps ! i = JObj items"
    by (auto simp: is_dict_iff)
  with x process_profile_dict [of cfg "job_env s i" items "job_start s i"]
  show "\<exists>r. x = Inr r" by auto
qed


lemma run_scheduler_dicts:
  assumes "\<forall>p \<in> set ps. is_dict p" and "0 < MAX_WORKERS cfg"
  shows "\<exists>rs. submit_all accepting cfg s ps = map Inr rs
              \<and> run_scheduler accepting cfg s ps = Inr (as_completed s rs)"
proof -
  from submit_all_dicts [OF assms(1)] obtain rs
    where rs: "submit_all accepting cfg s ps = map Inr rs"
    by blast
  have "run_scheduler accepting cfg s ps = Inr (as_completed s rs)"
    using assms(2) by (simp add: run_scheduler_def rs as_completed_map collect_map_Inr)
  with rs show ?thesis by blast
qed

lemma run_scheduler_not_dict:
  assumes p: "p \<in> set ps" and nd: "\<not> is_dict p" and workers: "0 < MAX_WORKERS cfg"
  shows "run_scheduler accepting cfg s ps
           = Inl (Exn AttributeError ''object has no attribute get'')"
proof -
  let ?e = "Exn AttributeError ''object has no attribute get''"
  let ?fs = "submit_all accepting cfg s ps"
  from p obtain i where i: "i < length ps" and pi: "ps ! i = p"
    by (auto simp: in_set_conv_nth)
  have "?fs ! i = Inl ?e"
    using i pi nd by (simp add: nth_submit_all process_profile_io_not_dict)
  moreover have "i < length ?fs"
    using i by (simp add: length_submit_all)
  ultimately have mem: "Inl ?e \<in> set ?fs"
    by (metis nth_mem)
  have only: "e' = ?e" if "Inl e' \<in> set ?fs" for e'
  proof -
    from that obtain j where j: "j < length ps"
      and e': "Inl e' = fst (process_profile cfg (job_env s j) (ps ! j) (job_start s j))"
      by (auto simp: submit_all_def process_profile_def)
    show ?thesis
    proof (cases "is_dict (ps ! j)")
      case True
      then obtain items where "ps ! j = JObj items"
        by (auto simp: is_dict_iff)
      with e' process_profile_dict [of cfg "job_env s j" items "job_start s j"]
      show ?thesis by auto
    next
      case False
      with e' show ?thesis
        by (simp add: process_profile_not_dict)
    qed
  qed
  have "collect (as_completed s ?fs) [] = Inl ?e"
  proof (rule collect_Inl)
    show "Inl ?e \<in> set (as_completed s ?fs)"
      using mem by (simp only: set_as_completed)
  next
    fix e' assume "Inl e' \<in> set (as_completed s ?fs)"
    then have "Inl e' \<in> set ?fs"
      by (simp only: set_as_completed)
    then show "e' = ?e" by (rule only)
  qed
  with workers show ?thesis
    by (simp add: run_scheduler_def)
qed


text \<open>
  When every print succeeds, a list of N dict records and a positive pool size give N
  outcomes, whatever the completion order: the k-th outcome collected is the one of the
  record at the k-th position of that order and carries its id.
\<close>

lemma run_scheduler_outcomes:
  assumes dicts: "\<forall>p \<in> set profiles. is_dict p"
      and workers: "0 < MAX_WORKERS cfg"
  shows "\<exists>results.
           run_scheduler accepting cfg s profiles = Inr results \<and>
           length results = length profiles \<and>
           mset (completion_order s (length profiles)) = mset [0..<length profiles] \<and>
           (\<forall>k < length profiles.
              fst (process_profile cfg
                     (job_env s (completion_order s (length profiles) ! k))
                     (profiles ! (completion_order s (length profiles) ! k))
                     (job_start s (completion_order s (length profiles) ! k)))
                = Inr (results ! k) \<and>
              get (profiles ! (completion_order s (length profiles) ! k)) ''id''
                = Inr (id_field (results ! k)))"
proof -
  let ?n = "length profiles"
  let ?order = "completion_order s ?n"
  from run_scheduler_dicts [OF dicts workers] obtain rs
    where rs: "submit_all accepting cfg s profiles = map Inr rs"
      and run: "run_scheduler accepting cfg s profiles = Inr (as_completed s rs)"
    by blast
  have len: "length rs = ?n"
    using length_submit_all [of accepting cfg s profiles] by (simp add: rs)
  have "\<forall>k < ?n.
          fst (process_profile cfg (job_env s (?order ! k)) (profiles ! (?order ! k))
                 (job_start s (?order ! k))) = Inr (as_completed s rs ! k) \<and>
          get (profiles ! (?order ! k)) ''id'' = Inr (id_field (as_completed s rs ! k))"
  proof (intro allI impI)
    fix k assume k: "k < ?n"
    let ?i = "?order ! k"
    have "?i \<in> set ?order"
      using k by (simp add: length_completion_order)
    then have i: "?i < ?n"
      by (simp add: set_completion_order)
    have res: "as_completed s rs ! k = rs ! ?i"
      using k by (simp add: as_completed_def len length_completion_order)
    have "Inr (rs ! ?i) = submit_all accepting cfg s profiles ! ?i"
      using i by (simp add: rs len)
    also have "\<dots> = fst (process_profile cfg (job_env s ?i) (profiles ! ?i) (job_start s ?i))"
      using i by (simp add: nth_submit_all process_profile_def)
    finally have job: "fst (process_profile cfg (job_env s ?i) (profiles ! ?i) (job_start s ?i))
                         = Inr (rs ! ?i)"
      by simp
    then have "process_profile cfg (job_env s ?i) (profiles ! ?i) (job_start s ?i)
                 = (Inr (rs ! ?i),
                    snd (process_profile cfg (job_env s ?i) (profiles ! ?i) (job_start s ?i)))"
      by (simp add: prod_eq_iff)
    then have "get (profiles ! ?i) ''id'' = Inr (id_field (rs ! ?i))"
      by (rule process_profile_id)
    with job res
    show "fst (process_profile cfg (job_env s ?i) (profiles ! ?i) (job_start s ?i))
            = Inr (as_completed s rs ! k) \<and>
          get (profiles ! ?i) ''id'' = Inr (id_field (as_completed s rs ! k))"
      by simp
  qed
  with run len show ?thesis
    by (simp add: length_as_completed mset_completion_order)
qed






lemma load_profiles_valid:
  "files d path = Some (ValidJson data) \<Longrightarrow>
     load_profiles accepting d path =
       (case len data of Inl e \<Rightarrow> Inl (Uncaught e) | Inr n \<Rightarrow> Inr data)"
  by (cases data)
     (simp_all add: load_profiles_def load_profiles_try_def accepting_def)

lemma save_results_accepting:
  "save_results accepting results output_file d =
     (Inr (),
      if unwritable d output_file then d
      else d\<lparr>files := (files d)(output_file \<mapsto> ValidJson (JArr (map outcome_json results)))\<rparr>)"
  by (simp add: save_results_def save_results_try_def accepting_def Let_def)

lemma report_and_save_accepting:
  "report_and_save accepting cfg ps results d =
     \<lparr>raised = None,
      disk_after = snd (save_results accepting results (OUTPUT_FILE cfg) d),
      events = PoolCreated # map Submitted ps @ [SaveResults (OUTPUT_FILE cfg)]\<rparr>"
  by (simp add: report_and_save_def save_results_accepting accepting_def Let_def)

lemma main_valid:
  "files d (INPUT_FILE cfg) = Some (ValidJson data) \<Longrightarrow>
     main cfg s d =
       (case len data of
          Inl e \<Rightarrow> \<lparr>raised = Some (Uncaught e), disk_after = d, events = []\<rparr>
        | Inr n \<Rightarrow> process_loaded accepting cfg s d data)"
  by (simp add: main_def main_io_def load_profiles_valid accepting_def split: sum.splits)

lemma main_nonempty_run:
  assumes "files d (INPUT_FILE cfg) = Some (ValidJson data)"
      and "len data = Inr n" and "iterate data = Inr ps" and "truthy data"
  shows "main cfg s d =
           (case run_scheduler accepting cfg s ps of
              Inl e \<Rightarrow>
                \<lparr>raised = Some (Uncaught e), disk_after = d,
                 events = (if MAX_WORKERS cfg \<le> 0 then [] else PoolCreated # map Submitted ps)\<rparr>
            | Inr results \<Rightarrow>
                \<lparr>raised = None,
                 disk_after = snd (save_results accepting results (OUTPUT_FILE cfg) d),
                 events = PoolCreated # map Submitted ps @ [SaveResults (OUTPUT_FILE cfg)]\<rparr>)"
  using assms
  by (simp add: main_valid process_loaded_def report_and_save_accepting accepting_def
           split: sum.splits)


lemma main_falsy:
  assumes "files d (INPUT_FILE cfg) = Some (ValidJson data)" and "\<not> truthy data"
  shows "disk_after (main cfg s d) = d" and "events (main cfg s d) = []"
    and "raised (main cfg s d) = (case len data of Inl e \<Rightarrow> Some (Uncaught e) | Inr n \<Rightarrow> None)"
  using assms
  by (simp_all add: main_valid process_loaded_def accepting_def split: sum.splits)



text \<open>
  On a standard output that has no check mark (cp1252, ASCII) the print in
  \<open>load_profiles\<close> raises and the run ends with status 1 before any job starts.
\<close>

lemma main_exits_1_when_print_fails:
  "exit_status (raised (main_io narrow_console sample_cfg
      (sample_sched (sample_env image_response api_ok_response))
      (sample_disk (JArr [sample_profile])))) = 1"
  by code_simp

section \<open>The per-record pipeline: properties\<close>

text \<open>
  Claim C2 says that for every profile record \<open>process_profile\<close> returns an outcome
  and lets no exception escape. The code does not do that: for the record whose id is a
  lone surrogate, on a UTF-8 standard output, the print before the download raises
  \<open>UnicodeEncodeError\<close> inside the \<open>try\<close>, \<open>except Exception\<close> catches it, and the
  print of the handler, which is outside any \<open>try\<close>, raises it again: the function
  raises, at the time it was entered, and returns no outcome.
\<close>

theorem process_profile_raises_when_print_fails:
  "process_profile_io utf8_console sample_cfg (sample_env image_response api_ok_response)
     surrogate_profile 7
   = (Inl (Exn UnicodeEncodeError ''surrogates not allowed''), 7)"
  by (simp add: pipeline_defs sample_defs surrogate_profile_def utf8_console_def)



text \<open>
  Claim C4. When the image fetch of a record fails (the GET raises, the status is an
  error status such as 404, or the body does not decode), the outcome has status
  \<open>failed\<close>, no fingerprint, the message of the fetch error as its error and no
  \<open>api_response\<close>; the POST is never reached, so the outcome is the same whatever the
  reporting endpoint would have answered.
\<close>

theorem fetch_failure_outcome:
  assumes "get profile ''id'' = Inr pid"
      and "get profile ''profile_image_url'' = Inr url"
      and "download_image w url t = (Inl e, t1)"
  shows "process_profile cfg w profile t =
           (Inr \<lparr>id_field = pid, p_hash = None, status = ''failed'', error = Some (str e),
                  api_response = None, timestamp = t\<rparr>, t1)
         \<and> (\<forall>post. process_profile cfg (w\<lparr>requests_post := post\<rparr>) profile t
                     = process_profile cfg w profile t)"
  using assms
  by (simp add: process_profile_accepting process_profile_try_accepting
        download_image_ignores_post)

theorem fetch_failure_outcome_witness:
  "download_image (sample_env not_found_response api_ok_response)
       (JStr ''http://img.example/1.png'') 7
     = (Inl (Exn HTTPError ''404 Client Error: Not Found''), 9)
   \<and> process_profile sample_cfg (sample_env not_found_response api_ok_response) sample_profile 7
     = (Inr \<lparr>id_field = JStr ''u1'', p_hash = None, status = ''failed'',
             error = Some ''404 Client Error: Not Found'', api_response = None,
             timestamp = 7\<rparr>, 9)"
proof -
  have h1: "get sample_profile ''id'' = Inr (JStr ''u1'')"
    by (simp add: sample_profile_def)
  have h2: "get sample_profile ''profile_image_url'' = Inr (JStr ''http://img.example/1.png'')"
    by (simp add: sample_profile_def)
  have h3: "download_image (sample_env not_found_response api_ok_response)
              (JStr ''http://img.example/1.png'') 7
            = (Inl (Exn HTTPError ''404 Client Error: Not Found''), 9)"
    by (simp add: download_image_def raise_for_status_def sample_env_def not_found_response_def)
  from fetch_failure_outcome [OF h1 h2 h3, of sample_cfg] h3 show ?thesis
    by simp
qed

text \<open>
  Claim C5, as the code has it. Provided the HTTP library raises only
  \<open>RequestException\<close>s (from the POST and from decoding the body) and every print
  succeeds: when fetch and fingerprinting succeed and the reporting call fails (the POST
  raises, the status is from 400 to 599, or the body is not empty and does not parse),
  the outcome has status \<open>api_failed\<close>, carries the fingerprint and, as
  \<open>api_response\<close>, a result whose \<open>success\<close> is false, and its error is the error of
  that result.
\<close>

theorem reporting_failure_outcome:
  assumes prints: "\<forall>m. con m = None"
      and pid: "get profile ''id'' = Inr pid"
      and url: "get profile ''profile_image_url'' = Inr url"
      and fetch: "download_image w url t = (Inr img, t1)"
      and hash: "compute_phash w img t1 = (Inr phash, t2)"
      and post: "requests_post w (API_ENDPOINT cfg) (build_payload pid phash) (build_headers cfg) t2
                   = (res, t3)"
      and lib_post: "\<forall>e. res = Inl e \<longrightarrow> isinstance_RequestException e"
      and lib_json: "\<forall>r e. res = Inr r \<and> resp_json r = Inl e \<longrightarrow> isinstance_RequestException e"
      and fails: "(\<exists>e. res = Inl e) \<or>
                  (\<exists>r. res = Inr r \<and>
                     (400 \<le> status_code r \<and> status_code r < 600 \<or>
                      resp_text r \<noteq> [] \<and> (\<exists>e. resp_json r = Inl e)))"
  shows "\<exists>api. process_profile_io con cfg w profile t =
                 (Inr \<lparr>id_field = pid, p_hash = Some phash, status = ''api_failed'',
                        error = api_error api, api_response = Some api, timestamp = t\<rparr>, t3)
               \<and> \<not> success api \<and> api_error api \<noteq> None"
proof -
  have con: "con = accepting"
    using prints by (rule console_accepting)
  have "\<exists>msg. send_to_api cfg w pid phash t2 =
                 (Inr \<lparr>success = False, api_status_code = None, api_body = None,
                        api_error = Some msg\<rparr>, t3)"
    using post lib_post lib_json fails
    by (cases res)
       (auto simp: send_to_api_def send_to_api_try_def raise_for_status_def split: sum.splits)
  then obtain msg where api:
    "send_to_api cfg w pid phash t2 =
       (Inr \<lparr>success = False, api_status_code = None, api_body = None,
              api_error = Some msg\<rparr>, t3)"
    by blast
  have "process_profile_io con cfg w profile t =
          (Inr \<lparr>id_field = pid, p_hash = Some phash, status = ''api_failed'',
                 error = Some msg,
                 api_response = Some \<lparr>success = False, api_status_code = None, api_body = None,
                                       api_error = Some msg\<rparr>,
                 timestamp = t\<rparr>, t3)"
    using pid url fetch hash api
    by (simp add: con process_profile_io_def process_profile_try_def accepting_def)
  then show ?thesis
    by (intro exI [of _ "\<lparr>success = False, api_status_code = None, api_body = None,
                          api_error = Some msg\<rparr>"]) simp
qed

theorem reporting_failure_outcome_witness:
  "accepting (Sending (JStr ''u1'')) = None
   \<and> requests_post (sample_env image_response api_500_response) (API_ENDPOINT sample_cfg)
        (build_payload (JStr ''u1'') ''c3d4a1b2e5f60718'') (build_headers sample_cfg) 11
       = (Inr api_500_response, 14)
   \<and> status_code api_500_response = 500
   \<and> process_profile_io accepting sample_cfg (sample_env image_response api_500_response)
        sample_profile 7
       = (Inr \<lparr>id_field = JStr ''u1'', p_hash = Some ''c3d4a1b2e5f60718'',
               status = ''api_failed'',
               error = Some ''500 Server Error: Internal Server Error'',
               api_response =
                 Some \<lparr>success = False, api_status_code = None, api_body = None,
                       api_error = Some ''500 Server Error: Internal Server Error''\<rparr>,
               timestamp = 7\<rparr>, 14)"
proof -
  let ?w = "sample_env image_response api_500_response"
  have h0: "\<forall>m. accepting m = None"
    by (simp add: accepting_def)
  have h1: "get sample_profile ''id'' = Inr (JStr ''u1'')"
    by (simp add: sample_profile_def)
  have h2: "get sample_profile ''profile_image_url'' = Inr (JStr ''http://img.example/1.png'')"
    by (simp add: sample_profile_def)
  have h3: "download_image ?w (JStr ''http://img.example/1.png'') 7 = (Inr (Image ''PNG''), 10)"
    by (simp add: download_image_def raise_for_status_def sample_env_def image_response_def)
  have h4: "compute_phash ?w (Image ''PNG'') 10 = (Inr ''c3d4a1b2e5f60718'', 11)"
    by (simp add: compute_phash_def sample_env_def)
  have h5: "requests_post ?w (API_ENDPOINT sample_cfg)
              (build_payload (JStr ''u1'') ''c3d4a1b2e5f60718'') (build_headers sample_cfg) 11
            = (Inr api_500_response, 14)"
    by (simp add: sample_env_def)
  have h6: "\<forall>e. (Inr api_500_response :: exn + response) = Inl e
              \<longrightarrow> isinstance_RequestException e"
    by simp
  have h7: "\<forall>r e. (Inr api_500_response :: exn + response) = Inr r \<and> resp_json r = Inl e
              \<longrightarrow> isinstance_RequestException e"
    by (simp add: api_500_response_def)
  have h8: "(\<exists>e. (Inr api_500_response :: exn + response) = Inl e) \<or>
            (\<exists>r. (Inr api_500_response :: exn + response) = Inr r \<and>
               (400 \<le> status_code r \<and> status_code r < 600 \<or>
                resp_text r \<noteq> [] \<and> (\<exists>e. resp_json r = Inl e)))"
    by (simp add: api_500_response_def)
  have run: "process_profile_io accepting sample_cfg ?w sample_profile 7
       = (Inr \<lparr>id_field = JStr ''u1'', p_hash = Some ''c3d4a1b2e5f60718'',
               status = ''api_failed'',
               error = Some ''500 Server Error: Internal Server Error'',
               api_response =
                 Some \<lparr>success = False, api_status_code = None, api_body = None,
                       api_error = Some ''500 Server Error: Internal Server Error''\<rparr>,
               timestamp = 7\<rparr>, 14)"
    by (simp add: pipeline_defs sample_defs)
  from reporting_failure_outcome [OF h0 h1 h2 h3 h4 h5 h6 h7 h8] h0 h5 run show ?thesis
    by (simp add: api_500_response_def)
qed

text \<open>
  Claim C5 as stated fails: when the POST raises an exception that is not a
  \<open>RequestException\<close>, \<open>send_to_api\<close> does not catch it, \<open>process_profile\<close> does,
  and the outcome has status \<open>failed\<close> and no \<open>api_response\<close>, with the fingerprint
  present.
\<close>

theorem report_crash_counterexample:
  "process_profile_io accepting sample_cfg post_crash_env sample_profile 7
   = (Inr \<lparr>id_field = JStr ''u1'', p_hash = Some ''c3d4a1b2e5f60718'', status = ''failed'',
           error = Some ''unexpected error in POST'', api_response = None,
           timestamp = 7\<rparr>, 14)"
  by (simp add: pipeline_defs sample_defs)

text \<open>
  Claim C8, as the code has it. The timestamp of an outcome is the clock reading at which
  \<open>process_profile\<close> was entered: it is taken when the result dict is built, before
  any stage runs.
\<close>

theorem timestamp_is_start_time:
  "process_profile cfg w profile t = (Inr r, t1) \<Longrightarrow> timestamp r = t"
  by (auto simp: process_profile_accepting process_profile_try_accepting Let_def
           split: prod.splits sum.splits if_splits)

theorem timestamp_is_start_time_witness:
  "process_profile sample_cfg (sample_env not_found_response api_ok_response) sample_profile 7
     = (Inr \<lparr>id_field = JStr ''u1'', p_hash = None, status = ''failed'',
             error = Some ''404 Client Error: Not Found'', api_response = None,
             timestamp = 7\<rparr>, 9)
   \<and> timestamp \<lparr>id_field = JStr ''u1'', p_hash = None, status = ''failed'',
             error = Some ''404 Client Error: Not Found'', api_response = None,
             timestamp = 7\<rparr> = 7"
proof -
  have run:
    "process_profile sample_cfg (sample_env not_found_response api_ok_response) sample_profile 7
       = (Inr \<lparr>id_field = JStr ''u1'', p_hash = None, status = ''failed'',
               error = Some ''404 Client Error: Not Found'', api_response = None,
               timestamp = 7\<rparr>, 9)"
    by (simp add: pipeline_defs sample_defs)
  from timestamp_is_start_time [OF run] run show ?thesis
    by simp
qed

text \<open>
  Claim C8 as stated fails: a job entered at time 7 whose stages take 7 ticks finishes at
  time 14, and its outcome carries the timestamp 7.
\<close>

theorem timestamp_not_finish_time:
  "map_sum id timestamp
     (fst (process_profile sample_cfg (sample_env image_response api_ok_response)
             sample_profile 7)) = Inr 7
   \<and> snd (process_profile sample_cfg (sample_env image_response api_ok_response)
            sample_profile 7) = 14"
  by (simp add: pipeline_defs sample_defs)

section \<open>The reporting stage: properties\<close>

text \<open>
  Claim C3, as the code has it. Provided the HTTP library raises only
  \<open>RequestException\<close>s (from the POST and from decoding the body), \<open>send_to_api\<close>
  never raises. A network error or timeout gives \<open>success = False\<close> with the message of
  the exception, and so does a status from 400 to 599, with the message of the
  \<open>HTTPError\<close>. Every other status, the 2xx ones among them, gives \<open>success = True\<close>
  with the status code and the parsed body (the empty dict for an empty body), unless
  the body is not empty and does not parse, which gives \<open>success = False\<close> again.
\<close>

theorem send_to_api_result:
  assumes post: "requests_post w (API_ENDPOINT cfg) (build_payload pid ph) (build_headers cfg) t
                   = (res, t1)"
      and lib_post: "\<forall>e. res = Inl e \<longrightarrow> isinstance_RequestException e"
      and lib_json: "\<forall>r e. res = Inr r \<and> resp_json r = Inl e \<longrightarrow> isinstance_RequestException e"
  shows "\<exists>a. send_to_api cfg w pid ph t = (Inr a, t1) \<and>
           (\<forall>e. res = Inl e \<longrightarrow>
              a = \<lparr>success = False, api_status_code = None, api_body = None,
                    api_error = Some (str e)\<rparr>) \<and>
           (\<forall>r. res = Inr r \<longrightarrow>
              (if 400 \<le> status_code r \<and> status_code r < 600
               then a = \<lparr>success = False, api_status_code = None, api_body = None,
                         api_error = Some (http_error_msg r)\<rparr>
               else if resp_text r = []
               then a = \<lparr>success = True, api_status_code = Some (status_code r),
                         api_body = Some (JObj []), api_error = None\<rparr>
               else (case resp_json r of
                       Inr body \<Rightarrow>
                         a = \<lparr>success = True, api_status_code = Some (status_code r),
                               api_body = Some body, api_error = None\<rparr>
                     | Inl e \<Rightarrow>
                         a = \<lparr>success = False, api_status_code = None, api_body = None,
                               api_error = Some (str e)\<rparr>)))"
  using assms
  by (cases res)
     (auto simp: send_to_api_def send_to_api_try_def raise_for_status_def split: sum.splits)

theorem send_to_api_result_witness:
  "requests_post (sample_env image_response api_ok_response) (API_ENDPOINT sample_cfg)
       (build_payload (JStr ''u1'') ''c3d4a1b2e5f60718'') (build_headers sample_cfg) 0
     = (Inr api_ok_response, 3)
   \<and> send_to_api sample_cfg (sample_env image_response api_ok_response) (JStr ''u1'')
       ''c3d4a1b2e5f60718'' 0
     = (Inr \<lparr>success = True, api_status_code = Some 200,
             api_body = Some (JObj [(''ok'', JBool True)]), api_error = None\<rparr>, 3)"
proof -
  let ?w = "sample_env image_response api_ok_response"
  have h1: "requests_post ?w (API_ENDPOINT sample_cfg)
              (build_payload (JStr ''u1'') ''c3d4a1b2e5f60718'') (build_headers sample_cfg) 0
            = (Inr api_ok_response, 3)"
    by (simp add: sample_env_def)
  have h2: "\<forall>e. (Inr api_ok_response :: exn + response) = Inl e \<longrightarrow> isinstance_RequestException e"
    by simp
  have h3: "\<forall>r e. (Inr api_ok_response :: exn + response) = Inr r \<and> resp_json r = Inl e
              \<longrightarrow> isinstance_RequestException e"
    by (simp add: api_ok_response_def)
  from send_to_api_result [OF h1 h2 h3] h1 show ?thesis
    by (auto simp: api_ok_response_def)
qed

text \<open>
  Claim C3 as stated fails twice: the status 304 is not a 2xx status and gives
  \<open>success = True\<close>, and the status 200 with a body that is not JSON gives
  \<open>success = False\<close>.
\<close>

theorem send_to_api_status_counterexample:
  "fst (send_to_api sample_cfg (sample_env image_response api_304_response) (JStr ''u1'')
          ''c3d4a1b2e5f60718'' 0)
     = Inr \<lparr>success = True, api_status_code = Some 304, api_body = Some (JObj []),
            api_error = None\<rparr>
   \<and> fst (send_to_api sample_cfg (sample_env image_response api_plain_response) (JStr ''u1'')
          ''c3d4a1b2e5f60718'' 0)
     = Inr \<lparr>success = False, api_status_code = None, api_body = None,
            api_error = Some ''Expecting value''\<rparr>"
  by (simp add: pipeline_defs sample_defs)

section \<open>The scheduler: properties\<close>

text \<open>
  Claim C1 says that the scheduler run returns one outcome for each of the N input
  records. The code does not do that: with the two dict records \<open>surrogate_profile\<close>
  and \<open>sample_profile\<close> on a UTF-8 standard output, the job of the first raises
  \<open>UnicodeEncodeError\<close> from the print of its handler, \<open>future.result()\<close> raises it
  again in the collection loop, and the run ends with that exception and no outcome,
  although the job of the second record returned one.
\<close>

theorem scheduler_returns_nothing_when_print_fails:
  "run_scheduler utf8_console sample_cfg
     (sample_sched (sample_env image_response api_ok_response))
     [surrogate_profile, sample_profile]
   = Inl (Exn UnicodeEncodeError ''surrogates not allowed'')"
  by code_simp

text \<open>
  Claim C9. A record that is not a dict makes \<open>process_profile\<close> raise
  \<open>AttributeError\<close> at its first \<open>profile.get\<close>, before the \<open>try\<close>: no time has
  passed, no stage has run and no outcome exists. When such a record is in the input
  array, the exception leaves the collection loop and \<open>main\<close>: the process exits with
  status 1 and \<open>save_results\<close> is not called.
\<close>

theorem non_dict_record_aborts_batch:
  assumes "\<not> is_dict p"
  shows "process_profile cfg w p t
           = (Inl (Exn AttributeError ''object has no attribute get''), t)
         \<and> (\<forall>ps. p \<in> set ps \<and> files d (INPUT_FILE cfg) = Some (ValidJson (JArr ps))
                  \<and> 0 < MAX_WORKERS cfg
               \<longrightarrow> raised (main cfg s d)
                     = Some (Uncaught (Exn AttributeError ''object has no attribute get''))
                   \<and> exit_status (raised (main cfg s d)) = 1
                   \<and> disk_after (main cfg s d) = d
                   \<and> SaveResults (OUTPUT_FILE cfg) \<notin> set (events (main cfg s d)))"
proof (intro conjI allI impI)
  show "process_profile cfg w p t
          = (Inl (Exn AttributeError ''object has no attribute get''), t)"
    using assms by (rule process_profile_not_dict)
next
  fix ps
  assume a: "p \<in> set ps \<and> files d (INPUT_FILE cfg) = Some (ValidJson (JArr ps))
             \<and> 0 < MAX_WORKERS cfg"
  then have p: "p \<in> set ps"
    and input: "files d (INPUT_FILE cfg) = Some (ValidJson (JArr ps))"
    and workers: "0 < MAX_WORKERS cfg"
    by simp_all
  from p have ne: "truthy (JArr ps)" by auto
  have run: "run_scheduler accepting cfg s ps
               = Inl (Exn AttributeError ''object has no attribute get'')"
    using p assms workers by (rule run_scheduler_not_dict)
  have "len (JArr ps) = Inr (length ps)" and "iterate (JArr ps) = Inr ps"
    by simp_all
  from main_nonempty_run [OF input this ne, of s] run workers
  have m: "main cfg s d =
             \<lparr>raised = Some (Uncaught (Exn AttributeError ''object has no attribute get'')),
              disk_after = d, events = PoolCreated # map Submitted ps\<rparr>"
    by simp
  show "raised (main cfg s d)
          = Some (Uncaught (Exn AttributeError ''object has no attribute get''))"
    by (simp add: m)
  show "exit_status (raised (main cfg s d)) = 1"
    by (simp add: m)
  show "disk_after (main cfg s d) = d"
    by (simp add: m)
  show "SaveResults (OUTPUT_FILE cfg) \<notin> set (events (main cfg s d))"
    by (auto simp: m)
qed

theorem non_dict_record_aborts_batch_witness:
  "\<not> is_dict (JNumber 1)
   \<and> JNumber 1 \<in> set [sample_profile, JNumber 1]
   \<and> files (sample_disk (JArr [sample_profile, JNumber 1])) (INPUT_FILE sample_cfg)
       = Some (ValidJson (JArr [sample_profile, JNumber 1]))
   \<and> 0 < MAX_WORKERS sample_cfg
   \<and> raised (main sample_cfg (sample_sched (sample_env image_response api_ok_response))
               (sample_disk (JArr [sample_profile, JNumber 1])))
       = Some (Uncaught (Exn AttributeError ''object has no attribute get''))"
proof -
  have h1: "\<not> is_dict (JNumber 1)"
    by simp
  have h2: "JNumber 1 \<in> set [sample_profile, JNumber 1]"
    by simp
  have h3: "files (sample_disk (JArr [sample_profile, JNumber 1])) (INPUT_FILE sample_cfg)
              = Some (ValidJson (JArr [sample_profile, JNumber 1]))"
    by (simp add: sample_disk_def sample_cfg_def)
  have h4: "0 < MAX_WORKERS sample_cfg"
    by (simp add: sample_cfg_def)
  from non_dict_record_aborts_batch
         [OF h1, of sample_cfg _ _ "sample_disk (JArr [sample_profile, JNumber 1])"
             "sample_sched (sample_env image_response api_ok_response)"] h1 h2 h3 h4
  show ?thesis
    by blast
qed

section \<open>main: properties\<close>

text \<open>
  Claim C10. When the loaded input is empty (or falsy in another way), \<open>main\<close> creates no
  pool and does not call \<open>save_results\<close>, and the disk is as it was; for the empty
  list, and any other empty value that has a length, \<open>main\<close> returns normally.
\<close>

theorem empty_input_writes_nothing:
  assumes "files d (INPUT_FILE cfg) = Some (ValidJson data)" and "\<not> truthy data"
  shows "disk_after (main cfg s d) = d \<and> events (main cfg s d) = []
         \<and> (\<forall>n. len data = Inr n \<longrightarrow> raised (main cfg s d) = None)"
  using assms by (simp add: main_falsy)

theorem empty_input_writes_nothing_witness:
  "files (sample_disk (JArr [])) (INPUT_FILE sample_cfg) = Some (ValidJson (JArr []))
   \<and> \<not> truthy (JArr [])
   \<and> len (JArr []) = Inr 0
   \<and> main sample_cfg (sample_sched (sample_env image_response api_ok_response))
        (sample_disk (JArr []))
       = \<lparr>raised = None, disk_after = sample_disk (JArr []), events = []\<rparr>"
proof -
  have h1: "files (sample_disk (JArr [])) (INPUT_FILE sample_cfg) = Some (ValidJson (JArr []))"
    by (simp add: sample_disk_def sample_cfg_def)
  have h2: "\<not> truthy (JArr [])"
    by simp
  have h3: "len (JArr []) = Inr 0"
    by simp
  from empty_input_writes_nothing
         [OF h1 h2, of "sample_sched (sample_env image_response api_ok_response)"] h1 h2 h3
  show ?thesis
    by simp
qed




end
